theory Spec2Isabelle
  imports Main "HOL-Library.Sublist"
begin

section \<open>JavaScript values and JSON documents\<close>

text \<open>
  A JSON document as a tree. A number carries its canonical decimal text, the only
  thing the program ever does with one is to write it back. An object is the list of
  its members in enumeration order. No statement below depends on that order (the
  engine enumerates integer-like keys first, which the list does not reproduce).
\<close>

datatype json =
    JNull
  | JBool bool
  | JNumber string
  | JString string
  | JArray "json list"
  | JObject "(string \<times> json) list"

text \<open>
  The values the program holds in memory. \<open>JS_object\<close> lists the own enumerable
  properties of a plain object.
\<close>

datatype jsval =
    JS_undefined
  | JS_null
  | JS_boolean bool
  | JS_number string
  | JS_string string
  | JS_array "jsval list"
  | JS_object "(string \<times> jsval) list"

datatype js_error =
    Error string
  | Type_error string
  | Syntax_error string
  | Assertion_error string
  | Io_error string

text \<open>\<open>err && err.message ? err.message : err\<close>: every error raised here has a message.\<close>

fun message :: "js_error \<Rightarrow> string" where
  "message (Error m) = m"
| "message (Type_error m) = m"
| "message (Syntax_error m) = m"
| "message (Assertion_error m) = m"
| "message (Io_error m) = m"

text \<open>\<open>JSON.parse\<close>, from the tree of the text to the value in memory.\<close>

primrec from_json :: "json \<Rightarrow> jsval" where
  "from_json JNull = JS_null"
| "from_json (JBool b) = JS_boolean b"
| "from_json (JNumber n) = JS_number n"
| "from_json (JString s) = JS_string s"
| "from_json (JArray xs) = JS_array (map from_json xs)"
| "from_json (JObject ps) = JS_object (map (map_prod id from_json) ps)"

text \<open>
  \<open>JSON.stringify\<close>: \<open>None\<close> is the result \<open>undefined\<close>. A property whose value
  serialises to \<open>undefined\<close> is left out of its object; such an element of an array
  is written \<open>null\<close>.
\<close>

definition keep_defined :: "(string \<times> json option) list \<Rightarrow> (string \<times> json) list" where
  "keep_defined ps = List.map_filter (\<lambda>(k, j). map_option (Pair k) j) ps"

definition null_if_undefined :: "json option \<Rightarrow> json" where
  "null_if_undefined j = (case j of None \<Rightarrow> JNull | Some x \<Rightarrow> x)"

primrec JSON_stringify :: "jsval \<Rightarrow> json option" where
  "JSON_stringify JS_undefined = None"
| "JSON_stringify JS_null = Some JNull"
| "JSON_stringify (JS_boolean b) = Some (JBool b)"
| "JSON_stringify (JS_number n) = Some (JNumber n)"
| "JSON_stringify (JS_string s) = Some (JString s)"
| "JSON_stringify (JS_array xs) = Some (JArray (map null_if_undefined (map JSON_stringify xs)))"
| "JSON_stringify (JS_object ps) = Some (JObject (keep_defined (map (map_prod id JSON_stringify) ps)))"

text \<open>
  \<open>env[v] = x\<close> on a plain object: an existing own property keeps its place, a new one
  goes to the end. The name \<open>__proto__\<close> is not a property of the object but the
  accessor inherited from \<open>Object.prototype\<close>: assigning to it never creates an own
  property (a string or \<open>undefined\<close> is ignored by the setter).
\<close>

fun set_prop :: "(string \<times> 'a) list \<Rightarrow> string \<Rightarrow> 'a \<Rightarrow> (string \<times> 'a) list" where
  "set_prop [] k v = [(k, v)]"
| "set_prop ((k', v') # ps) k v =
     (if k' = k then (k, v) # ps else (k', v') # set_prop ps k v)"

definition assign :: "(string \<times> jsval) list \<Rightarrow> string \<Rightarrow> jsval \<Rightarrow> (string \<times> jsval) list" where
  "assign ps k v = (if k = ''__proto__'' then ps else set_prop ps k v)"

section \<open>The process and its collaborators\<close>

text \<open>
  A file holds either a JSON text, given by the indentation it was written with and
  the tree it parses to, or some text that is not JSON.
\<close>

datatype content = Json_text nat json | Text string

text \<open>
  What \<open>writeFileSync\<close> puts in the file when handed the result of
  \<open>JSON.stringify(value, null, indent)\<close>: the JSON text, or the word \<open>undefined\<close>
  where there is none.
\<close>

definition text_of :: "nat \<Rightarrow> json option \<Rightarrow> content" where
  "text_of indent j = (case j of None \<Rightarrow> Text ''undefined'' | Some x \<Rightarrow> Json_text indent x)"

datatype event =
    Console_log string
  | Console_error string
  | Spawn_sync string "string list"
  | Exec_sync string
  | Remove_sync jsval
  | Write_file_sync string
  | Ensure_dir_sync string

text \<open>
  The world one invocation runs in. \<open>process_env\<close> holds the environment variables
  that are set. \<open>files\<close> is keyed by the canonical absolute path of each file. The
  three \<open>_error\<close> fields say for which paths the file system refuses the operation,
  and with which message; \<open>removed_before_error\<close> says which entries under a path had
  already gone when its removal was refused. \<open>child\<close> and \<open>shell\<close> are the external
  programs: from the files they find to whether they exit with status zero and the
  files they leave. \<open>trace\<close> lists the calls the program has made, oldest first.
  \<open>chalk\<close> colouring is left out of every message.
\<close>

record world =
  process_env :: "string \<Rightarrow> string option"
  process_cwd :: string
  isWin :: bool
  appName :: string
  asciiLogo :: string
  files :: "string \<Rightarrow> content option"
  write_error :: "string \<Rightarrow> string option"
  remove_error :: "string \<Rightarrow> string option"
  removed_before_error :: "string \<Rightarrow> string \<Rightarrow> bool"
  mkdir_error :: "string \<Rightarrow> string option"
  child :: "string \<Rightarrow> string list \<Rightarrow> (string \<Rightarrow> content option) \<Rightarrow> (string \<Rightarrow> content option)"
  shell :: "string \<Rightarrow> (string \<Rightarrow> content option) \<Rightarrow> bool \<times> (string \<Rightarrow> content option)"
  trace :: "event list"

datatype outcome = Returned | Exited nat | Threw js_error

definition emit :: "event \<Rightarrow> world \<Rightarrow> world" where
  "emit e w = w\<lparr>trace := trace w @ [e]\<rparr>"

text \<open>\<open>_exit(error, code = 1)\<close>: \<open>process.exit\<close> does not return.\<close>

definition exit_with :: "string \<Rightarrow> nat \<Rightarrow> world \<Rightarrow> outcome \<times> world" where
  "exit_with error code w = (Exited code, emit (Console_error error) w)"

definition and_then :: "outcome \<times> world \<Rightarrow> (world \<Rightarrow> outcome \<times> world) \<Rightarrow> outcome \<times> world" where
  "and_then r f = (case r of (Returned, w) \<Rightarrow> f w | _ \<Rightarrow> r)"

subsection \<open>Paths\<close>

text \<open>
  POSIX paths on a file system without links, where the directories a path goes
  through exist. A path is read as \<open>path.resolve\<close> and the system calls read it:
  split at the slashes, an empty name and \<open>.\<close> stay where they are, \<open>..\<close> goes up
  one directory (and stays at the root), every other name goes down.
\<close>

fun split_path :: "string \<Rightarrow> string list" where
  "split_path [] = [[]]"
| "split_path (c # cs) =
     (if c = CHR ''/'' then [] # split_path cs
      else case split_path cs of [] \<Rightarrow> [[c]] | seg # segs \<Rightarrow> (c # seg) # segs)"

text \<open>The directories entered so far, innermost first, and the next name of the path.\<close>

definition enter :: "string list \<Rightarrow> string \<Rightarrow> string list" where
  "enter stack seg =
     (if seg = [] \<or> seg = ''.'' then stack
      else if seg = ''..'' then drop 1 stack
      else seg # stack)"

text \<open>The names from the root down to what an absolute path denotes.\<close>

definition segments_of :: "string \<Rightarrow> string list" where
  "segments_of p = rev (foldl enter [] (split_path p))"

definition join_path :: "string list \<Rightarrow> string" where
  "join_path segs = (if segs = [] then ''/'' else concat (map (\<lambda>seg. CHR ''/'' # seg) segs))"

text \<open>\<open>path.join\<close> of the working directory and a relative path in normal form.\<close>

definition path_join :: "string \<Rightarrow> string \<Rightarrow> string" where
  "path_join a b = (if a = [] then b else if last a = CHR ''/'' then a @ b else a @ ''/'' @ b)"

definition absolute :: "string \<Rightarrow> bool" where
  "absolute p = (p \<noteq> [] \<and> hd p = CHR ''/'')"

text \<open>The canonical absolute path of a path as written, relative ones from the working directory.\<close>

definition resolve :: "world \<Rightarrow> string \<Rightarrow> string" where
  "resolve w p = join_path (segments_of (if absolute p then p else process_cwd w @ ''/'' @ p))"

text \<open>\<open>q\<close> is \<open>p\<close> or lies in the directory \<open>p\<close>, whatever the spelling of the two.\<close>

definition under :: "string \<Rightarrow> string \<Rightarrow> bool" where
  "under p q = prefix (segments_of p) (segments_of q)"

subsection \<open>File system and child process calls\<close>

text \<open>Each call returns the error it raised, if any, and the world it leaves.\<close>

definition fs_writeFileSync :: "string \<Rightarrow> content \<Rightarrow> world \<Rightarrow> js_error option \<times> world" where
  "fs_writeFileSync file data w =
     (let w1 = emit (Write_file_sync file) w in
      case write_error w (resolve w file) of
        Some m \<Rightarrow> (Some (Io_error m), w1)
      | None \<Rightarrow> (None, w1\<lparr>files := (files w)(resolve w file \<mapsto> data)\<rparr>))"

text \<open>JavaScript truthiness.\<close>

fun truthy :: "jsval \<Rightarrow> bool" where
  "truthy JS_undefined = False"
| "truthy JS_null = False"
| "truthy (JS_boolean b) = b"
| "truthy (JS_number n) = (n \<noteq> ''0'')"
| "truthy (JS_string s) = (s \<noteq> [])"
| "truthy (JS_array xs) = True"
| "truthy (JS_object ps) = True"

text \<open>
  \<open>fs.removeSync\<close>: the path must be a non-empty string (the library asserts it);
  the path and everything under it go. A path that does not exist is no error. When
  the file system refuses, the entries the removal had reached before are gone.
\<close>

definition fs_removeSync :: "jsval \<Rightarrow> world \<Rightarrow> js_error option \<times> world" where
  "fs_removeSync p w =
     (let w1 = emit (Remove_sync p) w in
      if \<not> truthy p then (Some (Assertion_error ''rimraf: missing path''), w1)
      else case p of
        JS_string s \<Rightarrow>
          (case remove_error w (resolve w s) of
             Some m \<Rightarrow>
               (Some (Io_error m),
                w1\<lparr>files := (\<lambda>q. if under (resolve w s) q \<and> removed_before_error w (resolve w s) q
                                   then None else files w q)\<rparr>)
           | None \<Rightarrow> (None, w1\<lparr>files := (\<lambda>q. if under (resolve w s) q then None else files w q)\<rparr>))
      | _ \<Rightarrow> (Some (Assertion_error ''rimraf: path should be a string''), w1))"

definition fs_ensureDirSync :: "string \<Rightarrow> world \<Rightarrow> js_error option \<times> world" where
  "fs_ensureDirSync dir w =
     (let w1 = emit (Ensure_dir_sync dir) w in
      case mkdir_error w (resolve w dir) of
        Some m \<Rightarrow> (Some (Io_error m), w1)
      | None \<Rightarrow> (None, w1))"

text \<open>
  \<open>child.spawnSync\<close> waits for the program and reports a failure in its result, which
  the callers here never read.
\<close>

definition child_spawnSync :: "string \<Rightarrow> string list \<Rightarrow> world \<Rightarrow> world" where
  "child_spawnSync command args w =
     (emit (Spawn_sync command args) w)\<lparr>files := child w command args (files w)\<rparr>"

text \<open>\<open>child.execSync\<close> raises when the command line exits with a non-zero status.\<close>

definition child_execSync :: "string \<Rightarrow> world \<Rightarrow> bool \<times> world" where
  "child_execSync command w =
     (fst (shell w command (files w)),
      (emit (Exec_sync command) w)\<lparr>files := snd (shell w command (files w))\<rparr>)"

text \<open>
  \<open>require\<close> of a \<open>.json\<close> file, whose path the module loader resolves. The wording
  of the errors the engine raises is the engine's; the texts here stand for it.
\<close>

definition require :: "string \<Rightarrow> world \<Rightarrow> js_error + jsval" where
  "require p w =
     (case files w (resolve w p) of
        None \<Rightarrow> Inl (Error (''Cannot find module '' @ p))
      | Some (Text s) \<Rightarrow> Inl (Syntax_error (p @ '': Unexpected token''))
      | Some (Json_text n j) \<Rightarrow> Inr (from_json j))"

text \<open>
  Reading \<open>value.k\<close> for a name \<open>k\<close> that no prototype defines and that is neither an
  index nor \<open>length\<close> (the program reads \<open>apps\<close> and \<open>outDir\<close>).
\<close>

fun get_prop :: "jsval \<Rightarrow> string \<Rightarrow> js_error + jsval" where
  "get_prop JS_undefined k = Inl (Type_error (''Cannot read property '' @ k @ '' of undefined''))"
| "get_prop JS_null k = Inl (Type_error (''Cannot read property '' @ k @ '' of null''))"
| "get_prop (JS_object ps) k = Inr (case map_of ps k of None \<Rightarrow> JS_undefined | Some v \<Rightarrow> v)"
| "get_prop v k = Inr JS_undefined"

text \<open>A value inside a template literal.\<close>

fun join_comma :: "string list \<Rightarrow> string" where
  "join_comma [] = []"
| "join_comma [x] = x"
| "join_comma (x # y # ys) = x @ '','' @ join_comma (y # ys)"

fun template :: "jsval \<Rightarrow> string" where
  "template JS_undefined = ''undefined''"
| "template JS_null = ''null''"
| "template (JS_boolean b) = (if b then ''true'' else ''false'')"
| "template (JS_number n) = n"
| "template (JS_string s) = s"
| "template (JS_array xs) =
     join_comma (map (\<lambda>x. if x = JS_undefined \<or> x = JS_null then [] else template x) xs)"
| "template (JS_object ps) = ''[object Object]''"

section \<open>The parsed command line\<close>

text \<open>
  What \<open>minimist\<close> returns for the declared flags: \<open>opt_positional\<close> is \<open>options._\<close>,
  the arguments that are not flags, in order, the command name first. A boolean flag
  that is absent is \<open>false\<close>, a string flag that is absent is \<open>undefined\<close>. A
  positional argument that reads as a number is a number in \<open>options._\<close>; it is
  taken here as the string it names a property by.
\<close>

record options =
  opt_positional :: "string list"
  opt_help :: bool
  opt_fast :: bool
  opt_dev :: bool
  opt_device :: bool
  opt_emulate :: bool
  opt_debug :: bool
  opt_release :: bool
  opt_yarn :: bool
  opt_cordova :: bool
  opt_dist :: bool
  opt_o :: "string option"
  opt_copy :: "string option"
  opt_env :: "string option"
  opt_path :: "string option"

text \<open>Truthiness of a string flag: absent and empty both count as not given.\<close>

definition given :: "string option \<Rightarrow> bool" where
  "given s = (case s of None \<Rightarrow> False | Some x \<Rightarrow> x \<noteq> [])"

section \<open>env2json\<close>

text \<open>
  An array index: the decimal text, without a leading zero, of a number below
  \<open>2^32 - 1\<close>.
\<close>

definition is_digit :: "char \<Rightarrow> bool" where
  "is_digit c = (c \<in> set ''0123456789'')"

definition decimal_value :: "string \<Rightarrow> nat" where
  "decimal_value s = foldl (\<lambda>n c. 10 * n + (of_char c - 48)) 0 s"

definition is_array_index :: "string \<Rightarrow> bool" where
  "is_array_index s =
     (s \<noteq> [] \<and> list_all is_digit s \<and> (if hd s = CHR ''0'' then s = ''0'' else True)
      \<and> decimal_value s < 2 ^ 32 - 1)"

text \<open>
  \<open>process.env[v]\<close>, where \<open>process_env\<close> holds the variables that are set.
  \<open>process.env\<close> answers for named properties only: an array index is not one, and
  its lookup gives \<open>undefined\<close> whether or not a variable of that name is set. For a
  name that is not set the lookup gives \<open>undefined\<close>, or, for a name that
  \<open>Object.prototype\<close> defines, the inherited function or object; none of these ever
  reaches the JSON text, and \<open>undefined\<close> stands for all of them.
\<close>

definition process_env_get :: "world \<Rightarrow> string \<Rightarrow> jsval" where
  "process_env_get w v =
     (if is_array_index v then JS_undefined
      else case process_env w v of None \<Rightarrow> JS_undefined | Some s \<Rightarrow> JS_string s)"

text \<open>The default of the parameter \<open>outputFile\<close>, taken when \<open>-o\<close> is absent.\<close>

definition outputFile_or_default :: "string option \<Rightarrow> string" where
  "outputFile_or_default o_opt =
     (case o_opt of None \<Rightarrow> ''src/environments/.env.json'' | Some f \<Rightarrow> f)"

definition env2json :: "string list \<Rightarrow> string option \<Rightarrow> world \<Rightarrow> outcome \<times> world" where
  "env2json vars o_opt w =
     (if vars = [] then exit_with (''Missing arguments'' @ [CHR 0x0A]) 1 w
      else
        let outputFile = outputFile_or_default o_opt;
            env = JSON_stringify
                    (JS_object (foldl (\<lambda>env v. assign env v (process_env_get w v)) [] vars))
        in case fs_writeFileSync outputFile (text_of 0 env) w of
             (Some err, w') \<Rightarrow> exit_with (''Error writing file: '' @ message err) 1 w'
           | (None, w') \<Rightarrow> (Returned, w'))"

section \<open>cordova\<close>

definition copy :: "string \<Rightarrow> string \<Rightarrow> world \<Rightarrow> bool \<times> world" where
  "copy src dest w =
     child_execSync ((if isWin w then ''xcopy /S /Y'' else ''cp -Rf'') @ '' '' @ src @ '' '' @ dest) w"

text \<open>\<open>copied || f()\<close>: \<open>f\<close> runs only when \<open>copied\<close> is false.\<close>

definition or_else :: "bool \<Rightarrow> (world \<Rightarrow> bool \<times> world) \<Rightarrow> world \<Rightarrow> bool \<times> world" where
  "or_else copied f w = (if copied then (True, w) else f w)"

definition flag_options :: "options \<Rightarrow> string list" where
  "flag_options options =
     concat (map (\<lambda>(option, on). if on then [''--'' @ option] else [])
       [(''device'', opt_device options), (''emulate'', opt_emulate options),
        (''debug'', opt_debug options), (''release'', opt_release options)])"

definition build_step :: "options \<Rightarrow> world \<Rightarrow> world" where
  "build_step options w =
     (if \<not> opt_fast options then
        let buildOptions = [''build'', ''--'']
              @ (if opt_dev options then [''--dev''] else [])
              @ (case opt_env options of
                   None \<Rightarrow> []
                 | Some e \<Rightarrow> if e \<noteq> [] then [''--env'', e] else [])
        in child_spawnSync (if opt_yarn options then ''yarn'' else ''npm run'') buildOptions w
      else w)"

definition copy_step :: "options \<Rightarrow> string \<Rightarrow> world \<Rightarrow> outcome \<times> world" where
  "copy_step options dest w =
     (case fs_ensureDirSync dest w of
        (Some err, w1) \<Rightarrow> exit_with (''Error during apps copy: '' @ message err) 1 w1
      | (None, w1) \<Rightarrow>
          let androidPath = ''platforms/android/build/outputs/apk/*-''
                @ (if opt_release options then ''release'' else ''debug'') @ ''.apk'';
              (copied1, w2) = or_else False (copy androidPath dest) w1;
              (copied2, w3) = or_else copied1 (copy ''platforms/ios/build/device/*.ipa'' dest) w2
          in if copied2 then (Returned, emit (Console_log (''Apps copied to '' @ dest @ '' folder'')) w3)
             else exit_with (''Error during apps copy: No app builds found'') 1 w3)"

definition cordova :: "options \<Rightarrow> world \<Rightarrow> outcome \<times> world" where
  "cordova options w =
     (let w1 = build_step options w;
          cordovaOptions = drop 1 (opt_positional options) @ [''--no-telemetry''] @ flag_options options;
          w2 = child_spawnSync ''cordova'' cordovaOptions w1
      in case (opt_positional options, opt_copy options) of
           (first # _, Some dest) \<Rightarrow>
             if first = ''build'' \<and> dest \<noteq> [] then copy_step options dest w2 else (Returned, w2)
         | _ \<Rightarrow> (Returned, w2))"

section \<open>clean\<close>

definition remove :: "jsval \<Rightarrow> world \<Rightarrow> outcome \<times> world" where
  "remove p w =
     (case fs_removeSync p w of
        (None, w') \<Rightarrow> (Returned, emit (Console_log (''Removed '' @ template p)) w')
      | (Some err, w') \<Rightarrow>
          exit_with (''Error while removing '' @ template p @ '': '' @ message err) 1 w')"

text \<open>\<open>apps.forEach(app => this._remove(app.outDir))\<close>\<close>

fun remove_each :: "jsval list \<Rightarrow> world \<Rightarrow> outcome \<times> world" where
  "remove_each [] w = (Returned, w)"
| "remove_each (app # apps) w =
     (case get_prop app ''outDir'' of
        Inl err \<Rightarrow> (Threw err, w)
      | Inr outDir \<Rightarrow> and_then (remove outDir w) (remove_each apps))"

definition clean_cordova :: "world \<Rightarrow> outcome \<times> world" where
  "clean_cordova w = and_then (remove (JS_string ''platforms'') w) (remove (JS_string ''plugins''))"

definition clean_dist :: "world \<Rightarrow> outcome \<times> world" where
  "clean_dist w =
     (case require (path_join (process_cwd w) ''.angular-cli.json'') w of
        Inl err \<Rightarrow> exit_with (''Error reading .angular-cli.json: '' @ message err) 1 w
      | Inr angularCliConfig \<Rightarrow>
          (case get_prop angularCliConfig ''apps'' of
             Inl err \<Rightarrow> (Threw err, w)
           | Inr (JS_array apps) \<Rightarrow> remove_each apps w
           | Inr JS_undefined \<Rightarrow> (Threw (Type_error ''Cannot read property forEach of undefined''), w)
           | Inr JS_null \<Rightarrow> (Threw (Type_error ''Cannot read property forEach of null''), w)
           | Inr _ \<Rightarrow> (Threw (Type_error ''angularCliConfig.apps.forEach is not a function''), w)))"

definition clean_path :: "string \<Rightarrow> world \<Rightarrow> outcome \<times> world" where
  "clean_path p w =
     (case fs_removeSync (JS_string p) w of
        (None, w') \<Rightarrow> (Returned, w')
      | (Some err, w') \<Rightarrow> (Threw err, w'))"

definition clean :: "options \<Rightarrow> world \<Rightarrow> outcome \<times> world" where
  "clean options0 w =
     (let options =
            (if \<not> opt_cordova options0 \<and> \<not> opt_dist options0 \<and> \<not> given (opt_path options0)
             then options0\<lparr>opt_cordova := True, opt_dist := True\<rparr> else options0)
      in and_then
           (and_then (if opt_cordova options then clean_cordova w else (Returned, w))
                     (\<lambda>w. if opt_dist options then clean_dist w else (Returned, w)))
           (\<lambda>w. case opt_path options of
                   None \<Rightarrow> (Returned, w)
                 | Some p \<Rightarrow> if p \<noteq> [] then clean_path p w else (Returned, w)))"

section \<open>unpin-ionic-dependencies\<close>

text \<open>
  \<open>pkg.peerDependencies = {}\<close> in strict mode. On an array the assignment makes a
  named property, which \<open>JSON.stringify\<close> does not write; on \<open>null\<close> or a primitive it
  raises.
\<close>

fun set_peerDependencies :: "jsval \<Rightarrow> js_error + jsval" where
  "set_peerDependencies (JS_object ps) = Inr (JS_object (set_prop ps ''peerDependencies'' (JS_object [])))"
| "set_peerDependencies (JS_array xs) = Inr (JS_array xs)"
| "set_peerDependencies JS_null = Inl (Type_error ''Cannot set property peerDependencies of null'')"
| "set_peerDependencies JS_undefined = Inl (Type_error ''Cannot set property peerDependencies of undefined'')"
| "set_peerDependencies v = Inl (Type_error (''Cannot create property peerDependencies on '' @ template v))"

definition unpinIonicDependencies :: "world \<Rightarrow> outcome \<times> world" where
  "unpinIonicDependencies w =
     (let pkgPath = path_join (process_cwd w) ''node_modules/ionic-angular/package.json'' in
      case require pkgPath w of
        Inl err \<Rightarrow> exit_with (''Error with ionic package: '' @ message err) 1 w
      | Inr pkg0 \<Rightarrow>
          (case set_peerDependencies pkg0 of
             Inl err \<Rightarrow> exit_with (''Error with ionic package: '' @ message err) 1 w
           | Inr pkg \<Rightarrow>
               (case fs_writeFileSync pkgPath (text_of 2 (JSON_stringify pkg)) w of
                  (Some err, w') \<Rightarrow> exit_with (''Error writing file: '' @ message err) 1 w'
                | (None, w') \<Rightarrow> (Returned, w'))))"

section \<open>help and run\<close>

text \<open>The constants \<open>help\<close> and \<open>detailedHelp\<close>, and the method \<open>_help\<close>.\<close>

definition help_usage :: "world \<Rightarrow> string" where
  "help_usage w = ''Usage '' @ appName w @ '' [command] [options]'' @ [CHR 0x0A]"

definition detailedHelp :: string where
  "detailedHelp = concat (map (\<lambda>line. line @ [CHR 0x0A])
       ['''',
        ''env2json <env_var> [<env_var2> ...] [-o <file.json>]'',
        ''  Export environment variables to a JSON file.'',
        ''  Default output file is src/environments/.env.json'',
        '''',
        ''cordova <command> [options] [-- <cordova_options>]'',
        ''  Execute Cordova commands.'',
        ''  Unless the --fast option is provided, the Angular app is'',
        ''  rebuilt before executing the command, using npm run build.'',
        ''  Any accepted Cordova option can be passed through after --.'',
        '''',
        ''  --fast            Skip Angular app rebuild'',
        ''  --copy <path>     Copy built apps to path (only work with cordova build)'',
        ''  --dev             Build Angular app in dev mode (default is prod)'',
        ''  -e, --env <name>  Target environment for npm run build'',
        ''  --device          Deploy Cordova build to a device'',
        ''  --emulate         Deploy Cordova build to an emulator'',
        ''  --debug           Create a Cordova debug build'',
        ''  --release         Create a Cordova release build'',
        ''  --yarn            Use Yarn instead of NPM to run the build script'',
        '''',
        ''clean [--cordova] [--dist] [--path <path>]'',
        ''  Clean Cordova (platforms, plugins) and dist folders.'',
        '''',
        ''  --cordova         Remove only Cordova folders'',
        ''  --dist            Remove only dist folder'',
        ''  --path <path>     Remove only specified path'',
        '''',
        ''unpin-ionic-dependencies'',
        ''  Unpin Ionic dependencies.'',
        ''  This removes peerDependencies from ionic-angular's package.json.'',
        ''  The Ionic team insist on fixing their dependencies to exact versions which'',
        ''  prevents getting bugfixes and new features outside of their release schedule'',
        ''  (see https://github.com/ionic-team/ionic/issues/11741 for example).'',
        ''  Running this allows you using higher dependencies versions that specified in'',
        ''  Ionic without warnings all the way.''])"

definition help_cmd :: "bool \<Rightarrow> world \<Rightarrow> outcome \<times> world" where
  "help_cmd details w =
     exit_with (help_usage w @ (if details then detailedHelp
                          else ''Use --help for more info.'' @ [CHR 0x0A])) 1
       (emit (Console_log (asciiLogo w)) w)"

definition run :: "string list \<Rightarrow> options \<Rightarrow> world \<Rightarrow> outcome \<times> world" where
  "run args options w =
     (if opt_help options then help_cmd True w
      else case args of
        [] \<Rightarrow> help_cmd False w
      | command # _ \<Rightarrow>
          if command = ''env2json'' then env2json (drop 1 (opt_positional options)) (opt_o options) w
          else if command = ''cordova'' then cordova options w
          else if command = ''clean'' then clean options w
          else if command = ''unpin-ionic-dependencies'' then unpinIonicDependencies w
          else help_cmd False w)"

section \<open>A concrete project\<close>

text \<open>
  A project directory \<open>/app\<close> with a build configuration naming one output
  directory, the Ionic manifest, and a file system that refuses nothing. No external
  program changes a file, and no copy command finds anything to copy.
\<close>

definition example_options :: options where
  "example_options =
     \<lparr>opt_positional = [], opt_help = False, opt_fast = False, opt_dev = False,
      opt_device = False, opt_emulate = False, opt_debug = False, opt_release = False,
      opt_yarn = False, opt_cordova = False, opt_dist = False,
      opt_o = None, opt_copy = None, opt_env = None, opt_path = None\<rparr>"

definition example_config :: json where
  "example_config = JObject [(''apps'', JArray [JObject [(''root'', JString ''src''), (''outDir'', JString ''dist'')]])]"

definition example_manifest :: "(string \<times> json) list" where
  "example_manifest =
     [(''name'', JString ''ionic-angular''),
      (''peerDependencies'', JObject [(''rxjs'', JString ''5.5.2'')]),
      (''version'', JString ''3.9.2'')]"

definition example_world :: world where
  "example_world =
     \<lparr>process_env = [''API_URL'' \<mapsto> ''https://example.org'', ''__proto__'' \<mapsto> ''x''],
      process_cwd = ''/app'',
      isWin = False,
      appName = ''ngx-scripts'',
      asciiLogo = ''APP SUPPORT SCRIPTS'',
      files = [''/app/.angular-cli.json'' \<mapsto> Json_text 2 example_config,
               ''/app/node_modules/ionic-angular/package.json'' \<mapsto> Json_text 2 (JObject example_manifest),
               ''/app/dist/index.html'' \<mapsto> Text ''index'',
               ''/app/tmp/cache'' \<mapsto> Text ''cache''],
      write_error = (\<lambda>p. None),
      remove_error = (\<lambda>p. None),
      removed_before_error = (\<lambda>p q. False),
      mkdir_error = (\<lambda>p. None),
      child = (\<lambda>command args fs. fs),
      shell = (\<lambda>command fs. (False, fs)),
      trace = []\<rparr>"

definition build_copy_options :: options where
  "build_copy_options =
     example_options\<lparr>opt_positional := [''cordova'', ''build''], opt_copy := Some ''out''\<rparr>"

text \<open>The same project once both platforms have been built: every copy command succeeds.\<close>

definition built_world :: world where
  "built_world = example_world\<lparr>shell := (\<lambda>command fs. (True, fs))\<rparr>"

text \<open>
  The same project on a file system that refuses to remove the path \<open>p\<close>, before
  anything under it has gone.
\<close>

definition refusing_world :: "string \<Rightarrow> world" where
  "refusing_world p =
     example_world\<lparr>remove_error := (\<lambda>q. if q = p then Some ''EACCES: permission denied'' else None)\<rparr>"

section \<open>Reading a trace and a file system\<close>

fun is_spawn :: "event \<Rightarrow> bool" where
  "is_spawn (Spawn_sync command args) = True"
| "is_spawn e = False"



section \<open>Properties of paths\<close>
















section \<open>Properties of objects and of their JSON text\<close>

lemma map_of_set_prop: "map_of (set_prop ps k v) = (map_of ps)(k \<mapsto> v)"
  by (induction ps k v rule: set_prop.induct) auto







lemma keep_defined_simps:
  "keep_defined [] = []"
  "keep_defined ((k, None) # ps) = keep_defined ps"
  "keep_defined ((k, Some x) # ps) = (k, x) # keep_defined ps"
  by (simp_all add: keep_defined_def map_filter_simps)






lemmas path_eval =
  resolve_def absolute_def path_join_def segments_of_def enter_def join_path_def under_def

lemmas example_eval =
  example_world_def example_options_def example_config_def example_manifest_def
  env2json_def outputFile_or_default_def process_env_get_def assign_def
  is_array_index_def is_digit_def
  fs_writeFileSync_def emit_def resolve_def absolute_def path_join_def segments_of_def enter_def
  join_path_def under_def text_of_def keep_defined_simps exit_with_def Let_def

section \<open>env2json: what is written\<close>




text \<open>
  Claim C10 at the name \<open>__proto__\<close>. The variable is set in the example project and
  is asked for, yet the object written has no key: the assignment \<open>env[v] = ...\<close>
  reaches the inherited accessor and creates no property.
\<close>

theorem env2json_proto_name_dropped:
  "process_env example_world ''__proto__'' = Some ''x'' \<and>
   fst (env2json [''__proto__''] None example_world) = Returned \<and>
   files (snd (env2json [''__proto__''] None example_world)) ''/app/src/environments/.env.json''
     = Some (Json_text 0 (JObject []))"
  by (simp add: example_eval)

text \<open>When the file system refuses the write, the error is printed and nothing is written.\<close>

lemma env2json_write_refused:
  assumes "vars \<noteq> []"
    and "write_error w (resolve w (outputFile_or_default o_opt)) = Some m"
  shows "env2json vars o_opt w =
           (Exited 1, w\<lparr>trace := trace w @ [Write_file_sync (outputFile_or_default o_opt),
                                               Console_error (''Error writing file: '' @ m)]\<rparr>)"
  using assms
  by (simp add: env2json_def fs_writeFileSync_def exit_with_def emit_def Let_def)

section \<open>env2json without names\<close>

text \<open>
  Claim C3. Called with no variable name, \<open>env2json\<close> prints the usage error
  \<open>Missing arguments\<close> on the error stream and exits with code 1. Nothing else
  happens: no file is written, whatever the output path.
\<close>

theorem env2json_no_names_exits:
  "env2json [] o_opt w =
     (Exited 1, w\<lparr>trace := trace w @ [Console_error (''Missing arguments'' @ [CHR 0x0A])]\<rparr>)"
  by (simp add: env2json_def exit_with_def emit_def)

section \<open>cordova: the build step and the packaging tool\<close>

lemma spawns_emit:
  "filter is_spawn (trace (emit e w)) = filter is_spawn (trace w) @ (if is_spawn e then [e] else [])"
  by (simp add: emit_def)

lemma trace_copy:
  "trace (snd (copy src dest w)) =
     trace w @ [Exec_sync ((if isWin w then ''xcopy /S /Y'' else ''cp -Rf'') @ '' '' @ src @ '' '' @ dest)]"
  by (simp add: copy_def child_execSync_def emit_def)

lemma spawns_ensureDir:
  "filter is_spawn (trace (snd (fs_ensureDirSync dest w))) = filter is_spawn (trace w)"
  by (simp add: fs_ensureDirSync_def emit_def Let_def split: option.splits)

lemma spawns_or_else_copy:
  "filter is_spawn (trace (snd (or_else copied (copy src dest) w))) = filter is_spawn (trace w)"
  by (simp add: or_else_def trace_copy)

text \<open>The copy step starts no program with \<open>spawnSync\<close>, however it ends.\<close>

lemma spawns_copy_step:
  "filter is_spawn (trace (snd (copy_step options dest w))) = filter is_spawn (trace w)"
proof -
  let ?android = "''platforms/android/build/outputs/apk/*-''
                @ (if opt_release options then ''release'' else ''debug'') @ ''.apk''"
  obtain e w1 where e: "fs_ensureDirSync dest w = (e, w1)" by force
  obtain c1 w2 where c1: "or_else False (copy ?android dest) w1 = (c1, w2)" by force
  obtain c2 w3 where c2: "or_else c1 (copy ''platforms/ios/build/device/*.ipa'' dest) w2 = (c2, w3)" by force
  have t1: "filter is_spawn (trace w1) = filter is_spawn (trace w)"
    using spawns_ensureDir [of dest w] e by simp
  have t2: "filter is_spawn (trace w2) = filter is_spawn (trace w1)"
    using spawns_or_else_copy [of False ?android dest w1] c1 by simp
  have t3: "filter is_spawn (trace w3) = filter is_spawn (trace w2)"
    using spawns_or_else_copy [of c1 "''platforms/ios/build/device/*.ipa''" dest w2] c2 by simp
  show ?thesis
  proof (cases e)
    case (Some err)
    then show ?thesis using e t1 by (simp add: copy_step_def exit_with_def spawns_emit)
  next
    case None
    then show ?thesis using e c1 c2 t1 t2 t3
      by (simp add: copy_step_def exit_with_def spawns_emit)
  qed
qed

text \<open>
  Claim C7. With \<open>--fast\<close> the programs started by \<open>cordova\<close> are exactly one: the
  packaging tool \<open>cordova\<close>, with the positional arguments after the command name,
  \<open>--no-telemetry\<close> and the deployment flags. Neither \<open>npm run\<close> nor \<open>yarn\<close> is
  started, whether or not a copy step follows and however it ends.
\<close>

theorem cordova_fast_spawns_only_cordova:
  assumes "opt_fast options"
  shows "filter is_spawn (trace (snd (cordova options w))) =
           filter is_spawn (trace w) @
           [Spawn_sync ''cordova'' (drop 1 (opt_positional options) @ [''--no-telemetry''] @ flag_options options)]"
  using assms
  by (simp add: cordova_def build_step_def spawns_copy_step child_spawnSync_def emit_def Let_def
      split: list.splits option.splits)

theorem cordova_fast_spawns_only_cordova_witness:
  "filter is_spawn (trace (snd (cordova (build_copy_options\<lparr>opt_fast := True, opt_release := True\<rparr>) example_world))) =
     [Spawn_sync ''cordova'' [''build'', ''--no-telemetry'', ''--release'']]"
proof -
  have h: "opt_fast (build_copy_options\<lparr>opt_fast := True, opt_release := True\<rparr>)" by simp
  show ?thesis
    using cordova_fast_spawns_only_cordova [OF h, of example_world]
    by (simp add: build_copy_options_def example_options_def example_world_def flag_options_def)
qed

section \<open>cordova: the copy step\<close>

lemmas cordova_eval =
  run_def cordova_def build_step_def copy_step_def copy_def or_else_def flag_options_def
  child_spawnSync_def child_execSync_def fs_ensureDirSync_def
  build_copy_options_def built_world_def

text \<open>
  What the copy step does once it is entered, the destination directory made, and
  neither copy command has found a file: the error the specification describes.
\<close>

lemma copy_step_no_builds:
  assumes "mkdir_error w (resolve w dest) = None"
    and "copy (''platforms/android/build/outputs/apk/*-''
                @ (if opt_release options then ''release'' else ''debug'') @ ''.apk'') dest
              (emit (Ensure_dir_sync dest) w) = (False, w2)"
    and "copy ''platforms/ios/build/device/*.ipa'' dest w2 = (False, w3)"
  shows "copy_step options dest w = exit_with ''Error during apps copy: No app builds found'' 1 w3"
  using assms by (simp add: copy_step_def fs_ensureDirSync_def or_else_def Let_def)

text \<open>
  Claim C4, on the program as it is run. \<open>run\<close> dispatches on the first argument,
  and \<open>minimist\<close> puts that same word first in \<open>options._\<close> (line 109 drops it with
  \<open>slice(1)\<close>). The test \<open>options._['0'] === 'build'\<close> therefore compares the command
  name \<open>cordova\<close> with \<open>build\<close>: whatever the flags, the files and the outcome of the
  packaging tool, the copy step is not entered and the command returns normally
  after the packaging tool, without an error message.
\<close>

theorem run_cordova_never_copies:
  assumes "\<not> opt_help options" and "opt_positional options = ''cordova'' # rest"
  shows "run (''cordova'' # args) options w =
           (Returned, child_spawnSync ''cordova'' (rest @ [''--no-telemetry''] @ flag_options options)
                        (build_step options w))"
  using assms by (simp add: run_def cordova_def Let_def split: option.splits)

text \<open>
  \<open>cordova build --copy out\<close> in the example project, where no build exists: the
  command returns, having only started the two external programs.
\<close>

theorem run_cordova_never_copies_witness:
  "fst (run [''cordova'', ''build'', ''--copy'', ''out''] build_copy_options example_world) = Returned \<and>
   trace (snd (run [''cordova'', ''build'', ''--copy'', ''out''] build_copy_options example_world)) =
     [Spawn_sync ''npm run'' [''build'', ''--''], Spawn_sync ''cordova'' [''build'', ''--no-telemetry'']]"
proof -
  have h1: "\<not> opt_help build_copy_options" by (simp add: build_copy_options_def example_options_def)
  have h2: "opt_positional build_copy_options = ''cordova'' # [''build'']"
    by (simp add: build_copy_options_def)
  show ?thesis
    using run_cordova_never_copies [OF h1 h2, of "[''build'', ''--copy'', ''out'']" example_world]
    by (simp add: example_eval cordova_eval)
qed

text \<open>
  Claim C2 at two inputs, in a project where both an \<open>apk\<close> and an \<open>ipa\<close> have been
  built. As the command line \<open>cordova build --copy out\<close>, the program neither makes
  the directory nor copies anything. Called with \<open>build\<close> first in \<open>options._\<close>, it
  makes the directory and copies the Android build, and \<open>copied || ...\<close> then skips
  the copy of the iOS build.
\<close>

theorem copy_never_reached_and_skips_ios:
  "trace (snd (run [''cordova'', ''build'', ''--copy'', ''out''] build_copy_options built_world)) =
     [Spawn_sync ''npm run'' [''build'', ''--''], Spawn_sync ''cordova'' [''build'', ''--no-telemetry'']]
   \<and> fst (cordova (build_copy_options\<lparr>opt_positional := [''build'']\<rparr>) built_world) = Returned
   \<and> trace (snd (cordova (build_copy_options\<lparr>opt_positional := [''build'']\<rparr>) built_world)) =
     [Spawn_sync ''npm run'' [''build'', ''--''], Spawn_sync ''cordova'' [''--no-telemetry''],
      Ensure_dir_sync ''out'',
      Exec_sync ''cp -Rf platforms/android/build/outputs/apk/*-debug.apk out'',
      Console_log ''Apps copied to out folder'']"
  by (simp add: example_eval cordova_eval)

section \<open>clean\<close>


text \<open>A removal that \<open>_remove\<close> makes and the file system refuses ends the process.\<close>

lemma remove_refused:
  assumes "p \<noteq> []" and "remove_error w (resolve w p) = Some m"
  shows "remove (JS_string p) w =
           (Exited 1, w\<lparr>trace := trace w @ [Remove_sync (JS_string p),
                          Console_error (''Error while removing '' @ p @ '': '' @ m)],
                        files := (\<lambda>q. if under (resolve w p) q \<and> removed_before_error w (resolve w p) q
                                       then None else files w q)\<rparr>)"
  using assms by (simp add: remove_def fs_removeSync_def emit_def exit_with_def Let_def)














text \<open>
  Claim C9 at the explicit path. \<open>clean --path tmp\<close> removes \<open>tmp\<close> and logs nothing;
  when the file system refuses, the error leaves \<open>run\<close> uncaught and the program has
  printed nothing. The removal of \<open>platforms\<close> by \<open>clean --cordova\<close>, refused in the
  same way, goes through \<open>_remove\<close>: it prints the error and exits with code 1, and
  \<open>plugins\<close> is not tried.
\<close>

theorem clean_path_not_logged_not_guarded:
  "fst (clean (example_options\<lparr>opt_path := Some ''tmp''\<rparr>) example_world) = Returned
   \<and> trace (snd (clean (example_options\<lparr>opt_path := Some ''tmp''\<rparr>) example_world)) =
       [Remove_sync (JS_string ''tmp'')]
   \<and> fst (clean (example_options\<lparr>opt_path := Some ''tmp''\<rparr>) (refusing_world ''/app/tmp'')) =
       Threw (Io_error ''EACCES: permission denied'')
   \<and> trace (snd (clean (example_options\<lparr>opt_path := Some ''tmp''\<rparr>) (refusing_world ''/app/tmp''))) =
       [Remove_sync (JS_string ''tmp'')]
   \<and> fst (clean (example_options\<lparr>opt_cordova := True\<rparr>) (refusing_world ''/app/platforms'')) = Exited 1
   \<and> trace (snd (clean (example_options\<lparr>opt_cordova := True\<rparr>) (refusing_world ''/app/platforms''))) =
       [Remove_sync (JS_string ''platforms''),
        Console_error ''Error while removing platforms: EACCES: permission denied'']"
  by (simp add: clean_def clean_path_def clean_cordova_def remove_def given_def fs_removeSync_def
      and_then_def emit_def exit_with_def Let_def example_options_def example_world_def
      refusing_world_def path_eval)

section \<open>unpin-ionic-dependencies\<close>

lemma keep_defined_Some: "keep_defined (map (\<lambda>(k, v). (k, Some v)) ps) = ps"
  by (induction ps) (auto simp: keep_defined_simps)

lemma keep_defined_all_defined:
  assumes "\<And>k v. (k, v) \<in> set ps \<Longrightarrow> f (g v) = Some v"
  shows "keep_defined (map (map_prod id f) (map (map_prod id g) ps)) = ps"
proof -
  have "map (map_prod id f) (map (map_prod id g) ps) = map (\<lambda>(k, v). (k, Some v)) ps"
    using assms by auto
  then show ?thesis by (simp only: keep_defined_Some)
qed

text \<open>Writing back what was parsed gives the document that was parsed.\<close>

lemma stringify_from_json: "JSON_stringify (from_json j) = Some j"
proof (induction j)
  case (JArray xs)
  then have "map null_if_undefined (map JSON_stringify (map from_json xs)) = xs"
    by (induction xs) (simp_all add: null_if_undefined_def)
  then show ?case by simp
next
  case (JObject ps)
  have "keep_defined (map (map_prod id JSON_stringify) (map (map_prod id from_json) ps)) = ps"
  proof (rule keep_defined_all_defined)
    fix k v assume "(k, v) \<in> set ps"
    then show "JSON_stringify (from_json v) = Some v"
      using JObject by (auto simp: snds.simps)
  qed
  then show ?case by simp
qed simp_all

lemma map_set_prop:
  "map (map_prod id f) (set_prop ps k v) = set_prop (map (map_prod id f) ps) k (f v)"
  by (induction ps k v rule: set_prop.induct) auto

text \<open>
  Claim C8. Let the manifest \<open>node_modules/ionic-angular/package.json\<close> under the
  working directory hold a JSON object, and let the file system accept the write.
  Then \<open>unpinIonicDependencies\<close> returns normally and makes one call, the write of
  that same file, which now holds, indented by 2, the object with \<open>peerDependencies\<close>
  set to the empty object: in its old place when the manifest had one, at the end
  otherwise. Every other member is as it was, and no other file changes.
\<close>

theorem unpin_clears_peerDependencies:
  assumes "pkgPath = resolve w (path_join (process_cwd w) ''node_modules/ionic-angular/package.json'')"
    and "files w pkgPath = Some (Json_text n (JObject manifest))"
    and "write_error w pkgPath = None"
  shows "unpinIonicDependencies w =
           (Returned, w\<lparr>trace := trace w @ [Write_file_sync
                            (path_join (process_cwd w) ''node_modules/ionic-angular/package.json'')],
                        files := (files w)(pkgPath \<mapsto>
                          Json_text 2 (JObject (set_prop manifest ''peerDependencies'' (JObject []))))\<rparr>)
         \<and> map_of (set_prop manifest ''peerDependencies'' (JObject [])) ''peerDependencies'' = Some (JObject [])
         \<and> (\<forall>k. k \<noteq> ''peerDependencies'' \<longrightarrow>
               map_of (set_prop manifest ''peerDependencies'' (JObject [])) k = map_of manifest k)"
proof -
  have s: "JSON_stringify (JS_object (set_prop (map (map_prod id from_json) manifest) ''peerDependencies'' (JS_object [])))
             = Some (JObject (set_prop manifest ''peerDependencies'' (JObject [])))"
    using stringify_from_json [of "JObject (set_prop manifest ''peerDependencies'' (JObject []))"]
    by (simp add: map_set_prop)
  have "unpinIonicDependencies w =
           (Returned, w\<lparr>trace := trace w @ [Write_file_sync
                            (path_join (process_cwd w) ''node_modules/ionic-angular/package.json'')],
                        files := (files w)(pkgPath \<mapsto>
                          Json_text 2 (JObject (set_prop manifest ''peerDependencies'' (JObject []))))\<rparr>)"
    using assms(2,3) s unfolding assms(1)
    by (simp add: unpinIonicDependencies_def require_def fs_writeFileSync_def text_of_def emit_def Let_def
        del: JSON_stringify.simps)
  then show ?thesis by (simp add: map_of_set_prop)
qed

text \<open>
  The manifest of the example project pins \<open>rxjs\<close>: after the command it has the
  same name and version, and no peer dependency.
\<close>

theorem unpin_clears_peerDependencies_witness:
  "fst (unpinIonicDependencies example_world) = Returned \<and>
   files (snd (unpinIonicDependencies example_world)) ''/app/node_modules/ionic-angular/package.json'' =
     Some (Json_text 2 (JObject [(''name'', JString ''ionic-angular''),
                                 (''peerDependencies'', JObject []),
                                 (''version'', JString ''3.9.2'')]))"
proof -
  have h1: "''/app/node_modules/ionic-angular/package.json''
              = resolve example_world
                  (path_join (process_cwd example_world) ''node_modules/ionic-angular/package.json'')"
    by (simp add: example_world_def path_eval)
  have h2: "files example_world ''/app/node_modules/ionic-angular/package.json''
              = Some (Json_text 2 (JObject example_manifest))"
    by (simp add: example_world_def)
  have h3: "write_error example_world ''/app/node_modules/ionic-angular/package.json'' = None"
    by (simp add: example_world_def)
  show ?thesis
    using unpin_clears_peerDependencies [OF h1 h2 h3]
    by (simp add: example_manifest_def)
qed

end
